theory Spec2Isabelle
  imports Main "HOL-Library.AList"
begin

section \<open>VoidKernel: data model\<close>

text \<open>
  The embedding follows \<^verbatim>\<open>backend/app/core/voidkernel.py\<close>.

  Python values that flow through the kernel untyped (task payloads, module results,
  command fields) are values of \<open>pyval\<close>. Dictionaries are association lists in
  insertion order, keyed by strings as the annotations \<^verbatim>\<open>Dict[str, Any]\<close> say.
  Clock readings (\<^verbatim>\<open>datetime.utcnow()\<close>, \<^verbatim>\<open>time.time()\<close>) are natural numbers,
  passed in by the caller of each operation; only their order is used.
\<close>

datatype pyval =
    PNone
  | PBool bool
  | PInt int
  | PStr string
  | PTime nat
  | PList "pyval list"
  | PDict "(string \<times> pyval) list"

datatype Priority = LOW | NORMAL | HIGH | CRITICAL

fun priority_value :: "Priority \<Rightarrow> nat" where
  "priority_value LOW = 1"
| "priority_value NORMAL = 2"
| "priority_value HIGH = 3"
| "priority_value CRITICAL = 4"

datatype TaskStatus = PENDING | RUNNING | COMPLETED | FAILED | CANCELLED

text \<open>
  The dataclass \<^verbatim>\<open>AITask\<close>. The field \<^verbatim>\<open>id\<close> is \<open>task_id\<close> here. The optional
  \<^verbatim>\<open>result\<close> is a \<open>pyval\<close>, with \<open>PNone\<close> for Python's \<^verbatim>\<open>None\<close>.
\<close>

record AITask =
  task_id :: string
  module :: string
  action :: string
  data :: "(string \<times> pyval) list"
  priority :: Priority
  created_at :: nat
  user_id :: "string option"
  project_id :: "string option"
  status :: TaskStatus
  result :: pyval
  error :: "string option"
  dependencies :: "string list"
  callbacks :: "string list"

text \<open>Exceptions that the kernel raises or catches; \<open>exn_str\<close> is \<^verbatim>\<open>str(e)\<close>.\<close>

datatype exn =
    ValueError string
  | AttributeError string
  | TypeError string
  | ModuleError string

fun exn_str :: "exn \<Rightarrow> string" where
  "exn_str (ValueError m) = m"
| "exn_str (AttributeError m) = m"
| "exn_str (TypeError m) = m"
| "exn_str (ModuleError m) = m"

text \<open>
  A registered module is an opaque collaborator. The kernel asks it three things:
  \<^verbatim>\<open>hasattr(module, action)\<close>, the awaited call \<^verbatim>\<open>getattr(module, action)(data)\<close> and
  the awaited call \<^verbatim>\<open>module.process_request(request)\<close>. Each call returns a value or
  raises.
\<close>

record ai_module =
  has_method :: "string \<Rightarrow> bool"
  call_method :: "string \<Rightarrow> pyval \<Rightarrow> exn + pyval"
  process_request :: "pyval \<Rightarrow> exn + pyval"

record module_metrics =
  total_tasks :: nat
  total_time :: nat
  success_count :: nat
  error_count :: nat

record metrics =
  tasks_processed :: nat
  average_processing_time :: nat
  error_rate :: nat
  module_performance :: "string \<rightharpoonup> module_metrics"
  last_reset :: nat

record event =
  ev_type :: string
  ev_data :: "(string \<times> pyval) list"
  ev_timestamp :: nat

text \<open>
  The state of a \<^verbatim>\<open>VoidKernel\<close> object.

  \<^item> \<open>task_queue\<close> holds the entries \<^verbatim>\<open>(priority_value, time.time(), task)\<close> of the
    \<^verbatim>\<open>asyncio.PriorityQueue\<close>, in insertion order.
  \<^item> \<open>active_tasks\<close> and \<open>completed_tasks\<close> are the two dictionaries, in insertion
    order. An \<^verbatim>\<open>AITask\<close> object is referenced from one container at a time: its
    queue entry, then \<open>active_tasks\<close> while a worker holds it, then
    \<open>completed_tasks\<close>. Each container therefore holds the record itself, and the
    local variable \<^verbatim>\<open>task\<close> of a worker that awaits a module is the entry of
    \<open>active_tasks\<close> under the task's id.
  \<^item> \<open>memory_vault\<close> maps a context key to the \<^verbatim>\<open>"recent_tasks"\<close> list of its
    entry, the only key the entries ever hold.
  \<^item> \<open>performance_metrics\<close> is the dictionary that \<^verbatim>\<open>initialize\<close> installs.
  \<^item> \<open>worker_tasks\<close> lists the worker loops created, each by the index \<open>i\<close> of its
    name \<^verbatim>\<open>worker-i\<close>.
  \<^item> \<open>message_brokers\<close> and \<open>performance_monitors\<close> count the loops created with
    \<^verbatim>\<open>asyncio.create_task\<close> that the object keeps no reference to.
\<close>

record kernel =
  task_queue :: "(nat \<times> nat \<times> AITask) list"
  active_tasks :: "(string \<times> AITask) list"
  completed_tasks :: "(string \<times> AITask) list"
  ai_modules :: "string \<rightharpoonup> ai_module"
  performance_metrics :: metrics
  is_running :: bool
  worker_tasks :: "nat list"
  max_workers :: nat
  broadcast_channel :: "event list"
  memory_vault :: "string \<rightharpoonup> pyval list"
  message_brokers :: nat
  performance_monitors :: nat

section \<open>Python helpers\<close>

definition dict_get :: "(string \<times> pyval) list \<Rightarrow> string \<Rightarrow> pyval" where
  \<comment> \<open>\<^verbatim>\<open>d.get(k)\<close>\<close>
  "dict_get d k = (case map_of d k of None \<Rightarrow> PNone | Some v \<Rightarrow> v)"

fun type_name :: "pyval \<Rightarrow> string" where
  "type_name PNone = ''NoneType''"
| "type_name (PBool b) = ''bool''"
| "type_name (PInt i) = ''int''"
| "type_name (PStr s) = ''str''"
| "type_name (PTime t) = ''datetime''"
| "type_name (PList xs) = ''list''"
| "type_name (PDict d) = ''dict''"

fun truthy :: "pyval \<Rightarrow> bool" where
  "truthy PNone = False"
| "truthy (PBool b) = b"
| "truthy (PInt i) = (i \<noteq> 0)"
| "truthy (PStr s) = (s \<noteq> [])"
| "truthy (PTime t) = True"
| "truthy (PList xs) = (xs \<noteq> [])"
| "truthy (PDict d) = (d \<noteq> [])"

section \<open>Construction, registration and submission\<close>

definition new_kernel :: kernel where
  \<comment> \<open>\<^verbatim>\<open>VoidKernel()\<close> followed by \<^verbatim>\<open>initialize()\<close> at clock reading 0\<close>
  "new_kernel = \<lparr>
     task_queue = [],
     active_tasks = [],
     completed_tasks = [],
     ai_modules = Map.empty,
     performance_metrics = \<lparr>tasks_processed = 0, average_processing_time = 0,
       error_rate = 0, module_performance = Map.empty, last_reset = 0\<rparr>,
     is_running = True,
     worker_tasks = [],
     max_workers = 4,
     broadcast_channel = [],
     memory_vault = Map.empty,
     message_brokers = 0,
     performance_monitors = 0 \<rparr>"

definition register_ai_module :: "string \<Rightarrow> ai_module \<Rightarrow> kernel \<Rightarrow> kernel" where
  "register_ai_module name m s = s\<lparr>ai_modules := (ai_modules s)(name \<mapsto> m)\<rparr>"

text \<open>
  \<^verbatim>\<open>PriorityQueue.put\<close> and \<^verbatim>\<open>PriorityQueue.get\<close>. The queue hands out a least entry
  under the tuple order: first the priority number, then the timestamp. Two entries equal
  in both would make Python compare the tasks themselves, which raises a TypeError
  (\<^verbatim>\<open>AITask\<close> defines no order) out of the \<^verbatim>\<open>put\<close> or the \<^verbatim>\<open>get\<close> that compares
  them. The model does not cover that case: its \<open>queue_put\<close> always succeeds and its
  \<open>queue_get\<close> takes the entry put first, so it stands for the code on queues whose
  entries differ in priority number or timestamp. \<open>queue_get\<close> is \<open>None\<close> on the
  empty queue, where the worker's \<^verbatim>\<open>wait_for\<close> times out.
\<close>

definition queue_put ::
  "nat \<times> nat \<times> AITask \<Rightarrow> (nat \<times> nat \<times> AITask) list \<Rightarrow> (nat \<times> nat \<times> AITask) list" where
  "queue_put e q = q @ [e]"

definition entry_less :: "nat \<times> nat \<times> AITask \<Rightarrow> nat \<times> nat \<times> AITask \<Rightarrow> bool" where
  "entry_less a b =
     (fst a < fst b \<or> (fst a = fst b \<and> fst (snd a) < fst (snd b)))"

fun least_entry :: "nat \<times> nat \<times> AITask \<Rightarrow> (nat \<times> nat \<times> AITask) list \<Rightarrow> nat \<times> nat \<times> AITask" where
  "least_entry m [] = m"
| "least_entry m (e # es) = least_entry (if entry_less e m then e else m) es"

fun remove_entry ::
  "nat \<times> nat \<Rightarrow> (nat \<times> nat \<times> AITask) list \<Rightarrow> (nat \<times> nat \<times> AITask) list" where
  "remove_entry k [] = []"
| "remove_entry k (e # es) =
     (if (fst e, fst (snd e)) = k then es else e # remove_entry k es)"

definition queue_get ::
  "(nat \<times> nat \<times> AITask) list \<Rightarrow> ((nat \<times> nat \<times> AITask) \<times> (nat \<times> nat \<times> AITask) list) option" where
  "queue_get q =
     (case q of
        [] \<Rightarrow> None
      | e # es \<Rightarrow>
          (let m = least_entry e es
           in Some (m, remove_entry (fst m, fst (snd m)) q)))"

text \<open>
  \<^verbatim>\<open>submit_task\<close>. The fresh \<^verbatim>\<open>uuid4\<close> string and the two clock readings are
  arguments: \<open>now\<close> is \<^verbatim>\<open>datetime.utcnow()\<close>, \<open>stamp\<close> is \<^verbatim>\<open>time.time()\<close>.
  The result is the returned id and the new state.
\<close>

definition submit_task ::
  "string \<Rightarrow> nat \<Rightarrow> nat \<Rightarrow> string \<Rightarrow> string \<Rightarrow> (string \<times> pyval) list \<Rightarrow> Priority \<Rightarrow>
   string option \<Rightarrow> string option \<Rightarrow> string list \<Rightarrow> kernel \<Rightarrow> string \<times> kernel" where
  "submit_task uuid now stamp m a d p uid pid deps s =
     (let task = \<lparr> task_id = uuid, module = m, action = a, data = d, priority = p,
                   created_at = now, user_id = uid, project_id = pid, status = PENDING,
                   result = PNone, error = None, dependencies = deps, callbacks = [] \<rparr>;
          prio = priority_value p
      in (uuid, s\<lparr>task_queue := queue_put (prio, stamp, task) (task_queue s)\<rparr>))"

section \<open>Dependency check and task context\<close>

text \<open>
  \<^verbatim>\<open>_check_dependencies\<close>: the loop over \<^verbatim>\<open>task.dependencies\<close> with its two early
  returns, over the \<open>completed_tasks\<close> dictionary.
\<close>

fun check_deps :: "(string \<times> AITask) list \<Rightarrow> string list \<Rightarrow> bool" where
  "check_deps completed [] = True"
| "check_deps completed (dep_id # rest) =
     (case map_of completed dep_id of
        None \<Rightarrow> False
      | Some dep \<Rightarrow> if status dep \<noteq> COMPLETED then False else check_deps completed rest)"

definition check_dependencies :: "kernel \<Rightarrow> AITask \<Rightarrow> bool" where
  "check_dependencies s task = check_deps (completed_tasks s) (dependencies task)"

text \<open>
  \<^verbatim>\<open>_get_task_context\<close>. The code puts a reference to the live vault entry into the
  context; the model puts the entry's value at the time of the call.
\<close>

definition vault_entry :: "pyval list \<Rightarrow> pyval" where
  \<comment> \<open>the dictionary stored in the vault under a context key\<close>
  "vault_entry recent = PDict [(''recent_tasks'', PList recent)]"

fun dependency_results ::
  "(string \<times> AITask) list \<Rightarrow> string list \<Rightarrow> (string \<times> pyval) list \<Rightarrow> (string \<times> pyval) list" where
  "dependency_results completed [] context = context"
| "dependency_results completed (dep_id # rest) context =
     dependency_results completed rest
       (case map_of completed dep_id of
          None \<Rightarrow> context
        | Some dep_task \<Rightarrow>
            if truthy (result dep_task)
            then AList.update (''dependency_'' @ dep_id) (result dep_task) context
            else context)"

definition get_task_context :: "kernel \<Rightarrow> AITask \<Rightarrow> (string \<times> pyval) list" where
  "get_task_context s task =
     (let context = [];
          context =
            (case user_id task of
               None \<Rightarrow> context
             | Some u \<Rightarrow>
                 (case memory_vault s u of
                    None \<Rightarrow> context
                  | Some recent \<Rightarrow>
                      if u \<noteq> [] then AList.update ''user'' (vault_entry recent) context
                      else context));
          context =
            (case project_id task of
               None \<Rightarrow> context
             | Some p \<Rightarrow>
                 (case memory_vault s p of
                    None \<Rightarrow> context
                  | Some recent \<Rightarrow>
                      if p \<noteq> [] then AList.update ''project'' (vault_entry recent) context
                      else context))
      in dependency_results (completed_tasks s) (dependencies task) context)"

section \<open>Memory vault, events and metrics\<close>

definition no_attribute :: "pyval \<Rightarrow> string \<Rightarrow> exn" where
  \<comment> \<open>the AttributeError of an attribute access on a value that lacks it\<close>
  "no_attribute v a =
     AttributeError ([CHR 0x27] @ type_name v @ [CHR 0x27] @ '' object has no attribute ''
                     @ [CHR 0x27] @ a @ [CHR 0x27])"

text \<open>
  \<^verbatim>\<open>_summarize_result\<close>. \<^verbatim>\<open>result.get\<close> exists on a dictionary only; on any other value
  the attribute access raises.
\<close>

definition summarize_result :: "pyval \<Rightarrow> exn + pyval" where
  "summarize_result res =
     (case res of
        PDict d \<Rightarrow>
          Inr (PDict [(''type'', dict_get d ''type''),
                      (''status'', dict_get d ''status''),
                      (''key_outputs'', PList (map PStr (take 5 (map fst d))))])
      | _ \<Rightarrow> Inl (no_attribute res ''get''))"

text \<open>
  \<^verbatim>\<open>_update_memory_vault\<close>. The entry and its list are created before the summary is
  computed, so they stay when the summary raises. The result is the exception,
  if any, and the vault.
\<close>

definition update_memory_vault ::
  "AITask \<Rightarrow> pyval \<Rightarrow> (string \<rightharpoonup> pyval list) \<Rightarrow> exn option \<times> (string \<rightharpoonup> pyval list)" where
  "update_memory_vault task res vault =
     (case user_id task of
        None \<Rightarrow> (None, vault)
      | Some u \<Rightarrow>
          if u = [] then (None, vault)
          else
            (let recent = (case vault u of None \<Rightarrow> [] | Some xs \<Rightarrow> xs)
             in case summarize_result res of
                  Inl e \<Rightarrow> (Some e, vault(u \<mapsto> recent))
                | Inr summary \<Rightarrow>
                    (let recent = recent @
                           [PDict [(''task_id'', PStr (task_id task)),
                                   (''module'', PStr (module task)),
                                   (''action'', PStr (action task)),
                                   (''result_summary'', summary),
                                   (''timestamp'', PTime (created_at task))]];
                         recent = (if length recent > 50
                                   then drop (length recent - 50) recent else recent)
                     in (None, vault(u \<mapsto> recent)))))"

definition broadcast_event ::
  "string \<Rightarrow> (string \<times> pyval) list \<Rightarrow> nat \<Rightarrow> kernel \<Rightarrow> kernel" where
  "broadcast_event event_type d now s =
     s\<lparr>broadcast_channel := broadcast_channel s @
          [\<lparr>ev_type = event_type, ev_data = d, ev_timestamp = now\<rparr>]\<rparr>"

definition update_performance_metrics :: "string \<Rightarrow> nat \<Rightarrow> bool \<Rightarrow> metrics \<Rightarrow> metrics" where
  "update_performance_metrics m processing_time success pm =
     (let mp = (case module_performance pm m of
                  None \<Rightarrow> \<lparr>total_tasks = 0, total_time = 0, success_count = 0, error_count = 0\<rparr>
                | Some x \<Rightarrow> x);
          mp = mp\<lparr>total_tasks := total_tasks mp + 1,
                  total_time := total_time mp + processing_time\<rparr>;
          mp = (if success then mp\<lparr>success_count := success_count mp + 1\<rparr>
                else mp\<lparr>error_count := error_count mp + 1\<rparr>)
      in pm\<lparr>tasks_processed := tasks_processed pm + 1,
            module_performance := (module_performance pm)(m \<mapsto> mp)\<rparr>)"

section \<open>Processing a task\<close>

text \<open>
  \<^verbatim>\<open>_process_task\<close> suspends once, at the awaited module call. It is modelled in three
  parts: \<open>begin_task\<close> (the two assignments before the \<^verbatim>\<open>try\<close>), \<open>call_module\<close>
  (module lookup, context, the call) and \<open>finish_task\<close> (everything after the call:
  the rest of the \<^verbatim>\<open>try\<close> body, the \<^verbatim>\<open>except\<close> handler and the \<^verbatim>\<open>finally\<close>
  block), which finds the worker's task in \<open>active_tasks\<close>. \<open>process_task\<close> runs the three in sequence. \<open>elapsed\<close> is the measured
  processing time and \<open>now\<close> the clock reading of the published event.
\<close>

definition begin_task :: "AITask \<Rightarrow> kernel \<Rightarrow> kernel" where
  "begin_task task s =
     s\<lparr>active_tasks := AList.update (task_id task) (task\<lparr>status := RUNNING\<rparr>) (active_tasks s)\<rparr>"

definition call_module :: "kernel \<Rightarrow> AITask \<Rightarrow> exn + pyval" where
  "call_module s task =
     (case ai_modules s (module task) of
        None \<Rightarrow> Inl (ValueError (''Unknown AI module: '' @ module task))
      | Some m \<Rightarrow>
          (let context = get_task_context s task;
               enhanced_data = AList.update ''context'' (PDict context) (data task)
           in if has_method m (action task)
              then call_method m (action task) (PDict enhanced_data)
              else process_request m
                     (PDict [(''action'', PStr (action task)),
                             (''data'', PDict enhanced_data)])))"

definition fail_task :: "AITask \<Rightarrow> exn \<Rightarrow> nat \<Rightarrow> nat \<Rightarrow> kernel \<Rightarrow> AITask \<times> kernel" where
  \<comment> \<open>the \<^verbatim>\<open>except Exception as e\<close> handler\<close>
  "fail_task task e elapsed now s =
     (let task = task\<lparr>status := FAILED, error := Some (exn_str e)\<rparr>;
          s = s\<lparr>performance_metrics :=
                  update_performance_metrics (module task) elapsed False (performance_metrics s)\<rparr>;
          s = broadcast_event ''task_failed''
                [(''task_id'', PStr (task_id task)),
                 (''module'', PStr (module task)),
                 (''error'', PStr (exn_str e))] now s
      in (task, s))"

definition cleanup_completed :: "(string \<times> AITask) list \<Rightarrow> (string \<times> AITask) list" where
  \<comment> \<open>\<^verbatim>\<open>sorted\<close> is stable, as \<open>sort_key\<close> is\<close>
  "cleanup_completed completed =
     (if length completed > 1000
      then (let oldest_tasks = take 500 (sort_key (\<lambda>x. created_at (snd x)) completed)
            in filter (\<lambda>x. fst x \<notin> set (map fst oldest_tasks)) completed)
      else completed)"

definition move_to_completed :: "AITask \<Rightarrow> kernel \<Rightarrow> kernel" where
  \<comment> \<open>the \<^verbatim>\<open>finally\<close> block\<close>
  "move_to_completed task s =
     (let s = s\<lparr>active_tasks := AList.delete (task_id task) (active_tasks s)\<rparr>;
          s = s\<lparr>completed_tasks := AList.update (task_id task) task (completed_tasks s)\<rparr>
      in s\<lparr>completed_tasks := cleanup_completed (completed_tasks s)\<rparr>)"

definition record_outcome ::
  "AITask \<Rightarrow> exn + pyval \<Rightarrow> nat \<Rightarrow> nat \<Rightarrow> kernel \<Rightarrow> AITask \<times> kernel" where
  \<comment> \<open>the \<^verbatim>\<open>try\<close> body after the module call, and the handler\<close>
  "record_outcome task outcome elapsed now s =
     (case outcome of
        Inl e \<Rightarrow> fail_task task e elapsed now s
      | Inr res \<Rightarrow>
          (let task = task\<lparr>result := res, status := COMPLETED\<rparr>;
               (raised, vault) = update_memory_vault task res (memory_vault s);
               s = s\<lparr>memory_vault := vault\<rparr>
           in case raised of
                Some e \<Rightarrow> fail_task task e elapsed now s
              | None \<Rightarrow>
                  (let s = broadcast_event ''task_completed''
                             [(''task_id'', PStr (task_id task)),
                              (''module'', PStr (module task)),
                              (''result'', res)] now s;
                       s = s\<lparr>performance_metrics :=
                               update_performance_metrics (module task) elapsed True
                                 (performance_metrics s)\<rparr>
                   in (task, s))))"

definition finish_task :: "string \<Rightarrow> exn + pyval \<Rightarrow> nat \<Rightarrow> nat \<Rightarrow> kernel \<Rightarrow> kernel" where
  "finish_task tid outcome elapsed now s =
     (case map_of (active_tasks s) tid of
        None \<Rightarrow> s
      | Some task \<Rightarrow>
          (let (task, s) = record_outcome task outcome elapsed now s
           in move_to_completed task s))"

definition process_task :: "AITask \<Rightarrow> nat \<Rightarrow> nat \<Rightarrow> kernel \<Rightarrow> kernel" where
  "process_task task elapsed now s =
     (let s = begin_task task s
      in finish_task (task_id task) (call_module s (task\<lparr>status := RUNNING\<rparr>)) elapsed now s)"

section \<open>The worker loop and the pool\<close>

text \<open>
  One iteration of the \<^verbatim>\<open>while self.is_running\<close> loop of \<^verbatim>\<open>_worker\<close>: take an entry
  (or time out and continue), put it back unchanged when its dependencies are not met,
  process it otherwise. With the guard false the loop has ended and nothing happens.
\<close>

definition worker_iteration :: "nat \<Rightarrow> nat \<Rightarrow> kernel \<Rightarrow> kernel" where
  "worker_iteration elapsed now s =
     (if \<not> is_running s then s
      else case queue_get (task_queue s) of
             None \<Rightarrow> s
           | Some ((prio, timestamp, task), rest) \<Rightarrow>
               (let s = s\<lparr>task_queue := rest\<rparr>
                in if \<not> check_dependencies s task
                   then s\<lparr>task_queue := queue_put (prio, timestamp, task) (task_queue s)\<rparr>
                   else process_task task elapsed now s))"

definition start_monitoring :: "kernel \<Rightarrow> kernel" where
  "start_monitoring s =
     s\<lparr>worker_tasks := worker_tasks s @ [0..<max_workers s],
       message_brokers := message_brokers s + 1,
       performance_monitors := performance_monitors s + 1\<rparr>"

section \<open>Direct commands\<close>

text \<open>
  The values of a response dictionary: a string, a count, the metrics dictionary, the
  dictionary \<^verbatim>\<open>asdict(task)\<close> (the record itself), and an f-string kept as its literal
  text and the value interpolated after it.
\<close>

datatype rval =
    RStr string
  | RInt nat
  | RMetrics metrics
  | RTask AITask
  | RFormat string pyval

text \<open>
  \<^verbatim>\<open>key in d\<close> followed by \<^verbatim>\<open>d[key]\<close> on a dictionary with string keys: a list or a
  dictionary is unhashable and raises, a string is looked up, any other value is
  hashable and equal to no key. A hit gives the key as a string and the value.
\<close>

definition dict_find :: "(string \<times> 'a) list \<Rightarrow> pyval \<Rightarrow> exn + (string \<times> 'a) option" where
  "dict_find d key =
     (case key of
        PStr k \<Rightarrow> Inr (case map_of d k of None \<Rightarrow> None | Some v \<Rightarrow> Some (k, v))
      | PList xs \<Rightarrow> Inl (TypeError (''unhashable type: '' @ [CHR 0x27] @ ''list'' @ [CHR 0x27]))
      | PDict kvs \<Rightarrow> Inl (TypeError (''unhashable type: '' @ [CHR 0x27] @ ''dict'' @ [CHR 0x27]))
      | _ \<Rightarrow> Inr None)"

text \<open>The body of the \<^verbatim>\<open>try\<close> in \<^verbatim>\<open>execute_command\<close>.\<close>

definition execute_command_try ::
  "(string \<times> pyval) list \<Rightarrow> kernel \<Rightarrow> exn + ((string \<times> rval) list \<times> kernel)" where
  "execute_command_try command s =
     (let cmd_type = dict_get command ''type''
      in if cmd_type = PStr ''get_status'' then
           Inr ([(''status'', RStr ''active''),
                 (''active_tasks'', RInt (length (active_tasks s))),
                 (''queue_size'', RInt (length (task_queue s))),
                 (''performance'', RMetrics (performance_metrics s))], s)
         else if cmd_type = PStr ''get_task_status'' then
           (let tid = dict_get command ''task_id''
            in case dict_find (active_tasks s) tid of
                 Inl e \<Rightarrow> Inl e
               | Inr (Some (k, task)) \<Rightarrow> Inr ([(''task'', RTask task)], s)
               | Inr None \<Rightarrow>
                   (case dict_find (completed_tasks s) tid of
                      Inl e \<Rightarrow> Inl e
                    | Inr (Some (k, task)) \<Rightarrow> Inr ([(''task'', RTask task)], s)
                    | Inr None \<Rightarrow> Inr ([(''error'', RStr ''Task not found'')], s)))
         else if cmd_type = PStr ''cancel_task'' then
           (let tid = dict_get command ''task_id''
            in case dict_find (active_tasks s) tid of
                 Inl e \<Rightarrow> Inl e
               | Inr (Some (k, task)) \<Rightarrow>
                   Inr ([(''status'', RStr ''cancelled'')],
                        s\<lparr>active_tasks :=
                            AList.update k (task\<lparr>status := CANCELLED\<rparr>) (active_tasks s)\<rparr>)
               | Inr None \<Rightarrow> Inr ([(''error'', RStr ''Task not found or not active'')], s))
         else Inr ([(''error'', RFormat ''Unknown command type: '' cmd_type)], s))"

definition execute_command ::
  "(string \<times> pyval) list \<Rightarrow> kernel \<Rightarrow> (string \<times> rval) list \<times> kernel" where
  "execute_command command s =
     (case execute_command_try command s of
        Inr r \<Rightarrow> r
      | Inl e \<Rightarrow> ([(''error'', RStr (exn_str e))], s))"

section \<open>Scenarios\<close>

text \<open>
  Concrete kernels used to run the definitions: a module whose calls all return the
  dictionary \<^verbatim>\<open>{"type": "code"}\<close>, registered as \<^verbatim>\<open>m\<close> on a fresh kernel.
\<close>

definition plain_module :: ai_module where
  "plain_module = \<lparr> has_method = (\<lambda>a. False),
                    call_method = (\<lambda>a d. Inr (PDict [(''type'', PStr ''code'')])),
                    process_request = (\<lambda>d. Inr (PDict [(''type'', PStr ''code'')])) \<rparr>"

definition kernel_m :: kernel where
  "kernel_m = register_ai_module ''m'' plain_module new_kernel"

definition plain_task :: "string \<Rightarrow> nat \<Rightarrow> Priority \<Rightarrow> AITask" where
  \<comment> \<open>the task that \<open>submit_task\<close> builds for module \<^verbatim>\<open>m\<close>, without context keys\<close>
  "plain_task tid now p =
     \<lparr> task_id = tid, module = ''m'', action = ''run'', data = [], priority = p,
       created_at = now, user_id = None, project_id = None, status = PENDING,
       result = PNone, error = None, dependencies = [], callbacks = [] \<rparr>"

definition submit_plain :: "string \<Rightarrow> nat \<Rightarrow> Priority \<Rightarrow> kernel \<Rightarrow> kernel" where
  "submit_plain tid now p s = snd (submit_task tid now now ''m'' ''run'' [] p None None [] s)"

definition three_submitted :: kernel where
  \<comment> \<open>submissions in the order NORMAL, CRITICAL, LOW\<close>
  "three_submitted =
     submit_plain ''t-low'' 3 LOW
       (submit_plain ''t-critical'' 2 CRITICAL
          (submit_plain ''t-normal'' 1 NORMAL kernel_m))"

definition cancel_command :: "string \<Rightarrow> (string \<times> pyval) list" where
  \<comment> \<open>\<^verbatim>\<open>{"type": "cancel_task", "task_id": tid}\<close>\<close>
  "cancel_command tid = [(''type'', PStr ''cancel_task''), (''task_id'', PStr tid)]"

definition one_pending :: kernel where
  \<comment> \<open>one task submitted, no worker has taken it\<close>
  "one_pending = submit_plain ''t1'' 1 NORMAL kernel_m"

definition one_running :: kernel where
  \<comment> \<open>a worker has taken the task and awaits the module\<close>
  "one_running = begin_task (plain_task ''t1'' 1 NORMAL) kernel_m"

definition cancelled_running :: kernel where
  \<comment> \<open>the running task is cancelled while the module call is in flight\<close>
  "cancelled_running = snd (execute_command (cancel_command ''t1'') one_running)"

definition project_task :: AITask where
  \<comment> \<open>a task of module \<^verbatim>\<open>m\<close> with a \<^verbatim>\<open>project_id\<close> and no \<^verbatim>\<open>user_id\<close>\<close>
  "project_task = (plain_task ''t1'' 1 NORMAL)\<lparr>project_id := Some ''p1''\<rparr>"

definition text_module :: ai_module where
  \<comment> \<open>a module with a method that returns a string, as
      \<^verbatim>\<open>NebulaVoidX._generate_game_engine\<close> does\<close>
  "text_module = \<lparr> has_method = (\<lambda>a. a = ''_generate_game_engine''),
                   call_method = (\<lambda>a d. Inr (PStr ''code'')),
                   process_request = (\<lambda>d. Inr (PDict [])) \<rparr>"

definition user_text_task :: AITask where
  "user_text_task = (plain_task ''t1'' 1 NORMAL)\<lparr>action := ''_generate_game_engine'', user_id := Some ''u1''\<rparr>"

definition failed_dependency :: AITask where
  "failed_dependency = (plain_task ''a'' 1 NORMAL)\<lparr>status := FAILED, error := Some ''boom''\<rparr>"

definition blocked_task :: AITask where
  "blocked_task = (plain_task ''b'' 2 NORMAL)\<lparr>dependencies := [''a'']\<rparr>"

definition blocked_kernel :: kernel where
  \<comment> \<open>task \<^verbatim>\<open>b\<close> waits in the queue for task \<^verbatim>\<open>a\<close>, which has failed\<close>
  "blocked_kernel =
     kernel_m\<lparr>task_queue := [(2, 2, blocked_task)],
              completed_tasks := [(''a'', failed_dependency)]\<rparr>"

definition unknown_module_pending :: kernel where
  \<comment> \<open>a task for module \<^verbatim>\<open>m\<close> on a kernel where no module is registered\<close>
  "unknown_module_pending = submit_plain ''t1'' 1 NORMAL new_kernel"

definition numbered_id :: "nat \<Rightarrow> string" where
  "numbered_id n = replicate (Suc n) CHR ''c''"

definition done_task :: "nat \<Rightarrow> AITask" where
  "done_task n =
     (plain_task (numbered_id n) (Suc n) NORMAL)\<lparr>status := COMPLETED, result := PDict []\<rparr>"

definition full_kernel :: kernel where
  \<comment> \<open>a thousand completed tasks, and one older task that a worker still holds\<close>
  "full_kernel =
     kernel_m\<lparr>completed_tasks := map (\<lambda>n. (numbered_id n, done_task n)) [0..<1000],
              active_tasks := [(''t1'', (plain_task ''t1'' 0 NORMAL)\<lparr>status := RUNNING\<rparr>)]\<rparr>"

definition unhashable_status_command :: "(string \<times> pyval) list" where
  \<comment> \<open>\<^verbatim>\<open>{"type": "get_task_status", "task_id": []}\<close>\<close>
  "unhashable_status_command = [(''type'', PStr ''get_task_status''), (''task_id'', PList [])]"

lemmas processing_defs =
  process_task_def call_module_def begin_task_def finish_task_def record_outcome_def
  update_memory_vault_def summarize_result_def no_attribute_def move_to_completed_def
  cleanup_completed_def broadcast_event_def fail_task_def update_performance_metrics_def

lemmas command_defs =
  execute_command_def execute_command_try_def dict_get_def dict_find_def

section \<open>Priority order of dispatch\<close>

lemma least_entry_cases: "least_entry m es = m \<or> least_entry m es \<in> set es"
  by (induction es arbitrary: m) (auto split: if_splits)

lemma least_entry_lowest:
  "fst (least_entry m es) \<le> fst m \<and> (\<forall>e\<in>set es. fst (least_entry m es) \<le> fst e)"
proof (induction es arbitrary: m)
  case Nil
  show ?case by simp
next
  case (Cons e es)
  have step: "fst (if entry_less e m then e else m) \<le> fst m"
    "fst (if entry_less e m then e else m) \<le> fst e"
    by (auto simp: entry_less_def)
  from Cons [of "if entry_less e m then e else m"] step show ?case
    by (auto intro: order_trans)
qed

text \<open>
  What \<open>queue_get\<close> hands out is a queued entry whose priority number is the lowest in
  the queue.
\<close>

lemma queue_get_lowest_priority_value:
  assumes "queue_get q = Some (m, rest)"
  shows "m \<in> set q \<and> (\<forall>e\<in>set q. fst m \<le> fst e)"
proof (cases q)
  case Nil
  with assms show ?thesis by (simp add: queue_get_def)
next
  case (Cons e es)
  with assms have m: "m = least_entry e es"
    by (auto simp: queue_get_def Let_def)
  from least_entry_cases [of e es] least_entry_lowest [of e es] show ?thesis
    unfolding m Cons by auto
qed

text \<open>
  Claim C1: with no dependencies the queue dispatches in priority order, CRITICAL (4)
  before HIGH (3) before NORMAL (2) before LOW (1); tasks submitted in the order
  NORMAL, CRITICAL, LOW begin running, on a single worker, in the order CRITICAL,
  NORMAL, LOW.

  The code puts the entry \<^verbatim>\<open>(priority.value, time.time(), task)\<close> on a queue that hands
  out the least entry first. For the three submissions the worker's first iteration takes
  the LOW task, the second the NORMAL task, and the CRITICAL task comes last.
\<close>

theorem low_priority_dispatched_first:
  "map (\<lambda>e. priority (snd (snd e))) (task_queue three_submitted) = [NORMAL, CRITICAL, LOW]
   \<and> map fst (completed_tasks (worker_iteration 0 4 three_submitted)) = [''t-low'']
   \<and> map fst (completed_tasks (worker_iteration 0 5 (worker_iteration 0 4 three_submitted)))
        = [''t-low'', ''t-normal'']
   \<and> map fst (completed_tasks
        (worker_iteration 0 6 (worker_iteration 0 5 (worker_iteration 0 4 three_submitted))))
        = [''t-low'', ''t-normal'', ''t-critical'']"
  by code_simp

section \<open>Dependency gating\<close>

lemma check_deps_iff:
  "check_deps c ds \<longleftrightarrow> (\<forall>d\<in>set ds. \<exists>t. map_of c d = Some t \<and> status t = COMPLETED)"
  by (induction ds) (auto split: option.splits)

text \<open>
  Claim C2: the dependency check is true if and only if every id in the task's
  dependencies names a task in the Completed set whose status is COMPLETED. So when the
  worker takes a task that has a dependency which is absent from the Completed set or is
  there with another status, the task is not processed: its entry (same priority, same
  timestamp, the task unchanged) is in the queue again, behind the entries that stayed,
  the Active and Completed sets are as before, and so is the rest of the state.
\<close>

theorem dependency_gate:
  "(check_dependencies s t \<longleftrightarrow>
      (\<forall>d\<in>set (dependencies t).
          \<exists>c. map_of (completed_tasks s) d = Some c \<and> status c = COMPLETED))
   \<and> (is_running s \<and> queue_get (task_queue s) = Some ((p, ts, t), rest)
        \<and> (\<exists>d\<in>set (dependencies t).
              \<not> (\<exists>c. map_of (completed_tasks s) d = Some c \<and> status c = COMPLETED))
      \<longrightarrow> task_queue (worker_iteration el now s) = rest @ [(p, ts, t)]
          \<and> (p, ts, t) \<in> set (task_queue (worker_iteration el now s))
          \<and> active_tasks (worker_iteration el now s) = active_tasks s
          \<and> completed_tasks (worker_iteration el now s) = completed_tasks s
          \<and> worker_iteration el now s = s\<lparr>task_queue := rest @ [(p, ts, t)]\<rparr>)"
  by (auto simp: check_dependencies_def check_deps_iff worker_iteration_def queue_put_def)

text \<open>
  Witness for C2: task \<^verbatim>\<open>b\<close> depends on the FAILED task \<^verbatim>\<open>a\<close>. The check is false;
  after the iteration the queue holds the entry of \<^verbatim>\<open>b\<close>, still PENDING, and no task
  is active.
\<close>

theorem dependency_gate_witness:
  "is_running blocked_kernel
   \<and> queue_get (task_queue blocked_kernel) = Some ((2, 2, blocked_task), [])
   \<and> map_of (completed_tasks blocked_kernel) ''a'' = Some failed_dependency
   \<and> status failed_dependency = FAILED
   \<and> \<not> check_dependencies blocked_kernel blocked_task
   \<and> task_queue (worker_iteration 0 3 blocked_kernel) = [(2, 2, blocked_task)]
   \<and> status blocked_task = PENDING
   \<and> active_tasks (worker_iteration 0 3 blocked_kernel) = []
   \<and> completed_tasks (worker_iteration 0 3 blocked_kernel) = [(''a'', failed_dependency)]"
proof -
  have run: "is_running blocked_kernel"
    by (simp add: blocked_kernel_def kernel_m_def register_ai_module_def new_kernel_def)
  have got: "queue_get (task_queue blocked_kernel) = Some ((2, 2, blocked_task), [])"
    by (simp add: blocked_kernel_def queue_get_def)
  have dep: "map_of (completed_tasks blocked_kernel) ''a'' = Some failed_dependency"
    by (simp add: blocked_kernel_def)
  have st: "status failed_dependency = FAILED"
    by (simp add: failed_dependency_def)
  have pend: "status blocked_task = PENDING"
    by (simp add: blocked_task_def plain_task_def)
  have act: "active_tasks blocked_kernel = []"
    by (simp add: blocked_kernel_def kernel_m_def register_ai_module_def new_kernel_def)
  have com: "completed_tasks blocked_kernel = [(''a'', failed_dependency)]"
    by (simp add: blocked_kernel_def)
  have unmet: "\<exists>d\<in>set (dependencies blocked_task).
      \<not> (\<exists>c. map_of (completed_tasks blocked_kernel) d = Some c \<and> status c = COMPLETED)"
    using dep st by (simp add: blocked_task_def)
  from dependency_gate [of blocked_kernel blocked_task 2 2 "[]" 0 3] run got unmet
  have "\<not> check_dependencies blocked_kernel blocked_task"
    and "task_queue (worker_iteration 0 3 blocked_kernel) = [] @ [(2, 2, blocked_task)]"
    and "active_tasks (worker_iteration 0 3 blocked_kernel) = active_tasks blocked_kernel"
    and "completed_tasks (worker_iteration 0 3 blocked_kernel) = completed_tasks blocked_kernel"
    by blast+
  with run got dep st pend act com show ?thesis by simp
qed

section \<open>Unknown module\<close>

lemma cleanup_completed_small: "length c \<le> 1000 \<Longrightarrow> cleanup_completed c = c"
  by (simp add: cleanup_completed_def)

lemma length_update_le: "length (AList.update k v al) \<le> Suc (length al)"
proof -
  have "length (map fst (AList.update k v al)) \<le> Suc (length al)"
    by (simp add: update_keys)
  then show ?thesis by simp
qed

text \<open>
  Claim C3: when a dispatched task names a module that is not registered, processing
  ends with the task FAILED and its error set to the message
  \<^verbatim>\<open>Unknown AI module: <name>\<close>; a \<^verbatim>\<open>task_failed\<close> event is published; the error
  count of that module name goes up by one; the task leaves the Active set and is stored
  in the Completed set, on which the eviction policy then runs (below the capacity the
  task is found there); the iteration ends normally with the entry gone from the queue
  and the kernel still running.
\<close>

theorem unknown_module_fails:
  assumes "is_running s"
    and "queue_get (task_queue s) = Some ((p, ts, t), rest)"
    and "check_dependencies s t"
    and "ai_modules s (module t) = None"
  shows "task_queue (worker_iteration el now s) = rest
     \<and> is_running (worker_iteration el now s)
     \<and> completed_tasks (worker_iteration el now s) =
         cleanup_completed (AList.update (task_id t)
           (t\<lparr>status := FAILED, error := Some (''Unknown AI module: '' @ module t)\<rparr>)
           (completed_tasks s))
     \<and> (length (completed_tasks s) < 1000 \<longrightarrow>
          map_of (completed_tasks (worker_iteration el now s)) (task_id t) =
            Some (t\<lparr>status := FAILED, error := Some (''Unknown AI module: '' @ module t)\<rparr>))
     \<and> map_of (active_tasks (worker_iteration el now s)) (task_id t) = None
     \<and> broadcast_channel (worker_iteration el now s) =
         broadcast_channel s @
           [\<lparr>ev_type = ''task_failed'',
             ev_data = [(''task_id'', PStr (task_id t)), (''module'', PStr (module t)),
                        (''error'', PStr (''Unknown AI module: '' @ module t))],
             ev_timestamp = now\<rparr>]
     \<and> map_option error_count
          (module_performance (performance_metrics (worker_iteration el now s)) (module t)) =
         Some ((case module_performance (performance_metrics s) (module t) of
                  None \<Rightarrow> 0 | Some mp \<Rightarrow> error_count mp) + 1)"
proof -
  let ?failed = "t\<lparr>status := FAILED, error := Some (''Unknown AI module: '' @ module t)\<rparr>"
  have w: "worker_iteration el now s = process_task t el now (s\<lparr>task_queue := rest\<rparr>)"
    using assms(1,2,3) by (simp add: worker_iteration_def check_dependencies_def)
  have p: "process_task t el now (s\<lparr>task_queue := rest\<rparr>) =
      move_to_completed ?failed
        (broadcast_event ''task_failed''
           [(''task_id'', PStr (task_id t)), (''module'', PStr (module t)),
            (''error'', PStr (''Unknown AI module: '' @ module t))] now
           (s\<lparr>task_queue := rest,
              active_tasks := AList.update (task_id t) (t\<lparr>status := RUNNING\<rparr>) (active_tasks s),
              performance_metrics :=
                update_performance_metrics (module t) el False (performance_metrics s)\<rparr>))"
    using assms(4)
    by (simp add: process_task_def begin_task_def call_module_def finish_task_def
          record_outcome_def fail_task_def update_conv)
  have small: "length (completed_tasks s) < 1000 \<Longrightarrow>
      cleanup_completed (AList.update (task_id t) ?failed (completed_tasks s)) =
        AList.update (task_id t) ?failed (completed_tasks s)"
  proof -
    assume l: "length (completed_tasks s) < 1000"
    have "length (AList.update (task_id t) ?failed (completed_tasks s))
            \<le> Suc (length (completed_tasks s))"
      by (rule length_update_le)
    with l show ?thesis by (simp add: cleanup_completed_small)
  qed
  show ?thesis
    unfolding w p
    using small assms(1)
    by (simp add: move_to_completed_def broadcast_event_def update_performance_metrics_def
          update_conv delete_conv split: option.splits)
qed

text \<open>
  Witness for C3: one task for module \<^verbatim>\<open>m\<close> on a kernel without modules. After one
  iteration the queue is empty and the task is in the Completed set, FAILED.
\<close>

theorem unknown_module_fails_witness:
  "is_running unknown_module_pending
   \<and> queue_get (task_queue unknown_module_pending)
       = Some ((2, 1, plain_task ''t1'' 1 NORMAL), [])
   \<and> check_dependencies unknown_module_pending (plain_task ''t1'' 1 NORMAL)
   \<and> ai_modules unknown_module_pending (module (plain_task ''t1'' 1 NORMAL)) = None
   \<and> task_queue (worker_iteration 0 2 unknown_module_pending) = []
   \<and> map_of (completed_tasks (worker_iteration 0 2 unknown_module_pending)) ''t1''
       = Some ((plain_task ''t1'' 1 NORMAL)
                 \<lparr>status := FAILED, error := Some ''Unknown AI module: m''\<rparr>)"
proof -
  let ?s = unknown_module_pending
  let ?t = "plain_task ''t1'' 1 NORMAL"
  have run: "is_running ?s"
    by (simp add: unknown_module_pending_def submit_plain_def submit_task_def new_kernel_def)
  have got: "queue_get (task_queue ?s) = Some ((2, 1, ?t), [])"
    by (simp add: unknown_module_pending_def submit_plain_def submit_task_def new_kernel_def
          queue_put_def queue_get_def plain_task_def)
  have ready: "check_dependencies ?s ?t"
    by (simp add: check_dependencies_def plain_task_def)
  have unknown: "ai_modules ?s (module ?t) = None"
    by (simp add: unknown_module_pending_def submit_plain_def submit_task_def new_kernel_def)
  have few: "length (completed_tasks ?s) < 1000"
    by (simp add: unknown_module_pending_def submit_plain_def submit_task_def new_kernel_def)
  have tid: "task_id (plain_task i n pr) = i" and m: "module (plain_task i n pr) = ''m''"
    for i n pr
    by (simp_all add: plain_task_def)
  from unknown_module_fails [OF run got ready unknown, of 0 2] few
  have "task_queue (worker_iteration 0 2 ?s) = []"
    and "map_of (completed_tasks (worker_iteration 0 2 ?s)) (task_id ?t)
           = Some (?t\<lparr>status := FAILED, error := Some (''Unknown AI module: '' @ module ?t)\<rparr>)"
    by blast+
  with run got ready unknown show ?thesis
    by (simp add: tid m)
qed

section \<open>Cancellation and terminal states\<close>

text \<open>
  Claim C4: once a task is COMPLETED, FAILED or CANCELLED no operation changes its
  status; in particular a task CANCELLED while RUNNING is never later set to COMPLETED
  or FAILED by the worker that executes it.

  In the code the \<^verbatim>\<open>cancel_task\<close> command answers \<^verbatim>\<open>{"status": "cancelled"}\<close> and sets
  CANCELLED on the running task; when the module call returns the worker assigns
  COMPLETED, and when it raises the worker assigns FAILED, without looking at the status.
\<close>

theorem cancelled_task_is_overwritten:
  "map (\<lambda>x. (fst x, status (snd x))) (active_tasks one_running) = [(''t1'', RUNNING)]
   \<and> fst (execute_command (cancel_command ''t1'') one_running) = [(''status'', RStr ''cancelled'')]
   \<and> map (\<lambda>x. (fst x, status (snd x))) (active_tasks cancelled_running) = [(''t1'', CANCELLED)]
   \<and> map (\<lambda>x. (fst x, status (snd x)))
        (completed_tasks (finish_task ''t1'' (Inr (PDict [])) 0 2 cancelled_running))
        = [(''t1'', COMPLETED)]
   \<and> map (\<lambda>x. (fst x, status (snd x)))
        (completed_tasks (finish_task ''t1'' (Inl (ModuleError ''boom'')) 0 2 cancelled_running))
        = [(''t1'', FAILED)]"
  by (simp add: cancelled_running_def one_running_def cancel_command_def kernel_m_def
        register_ai_module_def new_kernel_def plain_task_def command_defs processing_defs)

text \<open>
  Claim C5: the cancel command marks the task CANCELLED whenever the task is PENDING or
  RUNNING, and reports not-found-or-inactive exactly when the task is terminal or
  unknown.

  Counterexample: a task that was submitted and still waits in the queue is PENDING; the
  cancel command answers \<^verbatim>\<open>Task not found or not active\<close> and the task stays PENDING
  in the queue.
\<close>

theorem cancel_pending_counterexample:
  "map (\<lambda>e. (task_id (snd (snd e)), status (snd (snd e)))) (task_queue one_pending)
     = [(''t1'', PENDING)]
   \<and> fst (execute_command (cancel_command ''t1'') one_pending)
     = [(''error'', RStr ''Task not found or not active'')]
   \<and> map (\<lambda>e. (task_id (snd (snd e)), status (snd (snd e))))
        (task_queue (snd (execute_command (cancel_command ''t1'') one_pending)))
     = [(''t1'', PENDING)]"
  by (simp add: one_pending_def submit_plain_def submit_task_def queue_put_def
        cancel_command_def kernel_m_def register_ai_module_def new_kernel_def command_defs)

text \<open>
  Claim C5 as amended: the cancel command marks a task CANCELLED exactly when its id is
  a key of \<open>active_tasks\<close>, and otherwise answers \<^verbatim>\<open>Task not found or not active\<close> and
  changes nothing. Submission does not enter a task in \<open>active_tasks\<close>; a task enters
  it, as RUNNING, when a worker begins to process it. So a PENDING task cannot be
  cancelled.
\<close>

theorem cancel_task_active_only:
  assumes "dict_get command ''type'' = PStr ''cancel_task''"
    and "dict_get command ''task_id'' = PStr tid"
  shows "execute_command command s =
    (case map_of (active_tasks s) tid of
       Some t \<Rightarrow> ([(''status'', RStr ''cancelled'')],
                  s\<lparr>active_tasks := AList.update tid (t\<lparr>status := CANCELLED\<rparr>) (active_tasks s)\<rparr>)
     | None \<Rightarrow> ([(''error'', RStr ''Task not found or not active'')], s))
   \<and> active_tasks (snd (submit_task uuid now stamp m a d pr uid pid deps s)) = active_tasks s
   \<and> active_tasks (begin_task t s)
       = AList.update (task_id t) (t\<lparr>status := RUNNING\<rparr>) (active_tasks s)"
  using assms
  by (simp add: execute_command_def execute_command_try_def dict_find_def submit_task_def
        begin_task_def split: option.splits)

text \<open>Witness for the amended C5: cancelling the task that a worker is running.\<close>

theorem cancel_task_active_only_witness:
  "dict_get (cancel_command ''t1'') ''type'' = PStr ''cancel_task''
   \<and> dict_get (cancel_command ''t1'') ''task_id'' = PStr ''t1''
   \<and> map_of (active_tasks one_running) ''t1''
       = Some ((plain_task ''t1'' 1 NORMAL)\<lparr>status := RUNNING\<rparr>)
   \<and> execute_command (cancel_command ''t1'') one_running =
       ([(''status'', RStr ''cancelled'')],
        one_running\<lparr>active_tasks :=
          AList.update ''t1'' ((plain_task ''t1'' 1 NORMAL)\<lparr>status := CANCELLED\<rparr>)
            (active_tasks one_running)\<rparr>)"
proof -
  have ty: "dict_get (cancel_command ''t1'') ''type'' = PStr ''cancel_task''"
    and ti: "dict_get (cancel_command ''t1'') ''task_id'' = PStr ''t1''"
    by (simp_all add: cancel_command_def dict_get_def)
  have act: "map_of (active_tasks one_running) ''t1''
               = Some ((plain_task ''t1'' 1 NORMAL)\<lparr>status := RUNNING\<rparr>)"
    by (simp add: one_running_def begin_task_def kernel_m_def register_ai_module_def
          new_kernel_def plain_task_def)
  from cancel_task_active_only [OF ty ti, of one_running] act
  have "execute_command (cancel_command ''t1'') one_running =
       ([(''status'', RStr ''cancelled'')],
        one_running\<lparr>active_tasks :=
          AList.update ''t1'' ((plain_task ''t1'' 1 NORMAL)\<lparr>status := CANCELLED\<rparr>)
            (active_tasks one_running)\<rparr>)"
    by simp
  with ty ti act show ?thesis by blast
qed

section \<open>The bound on the Completed set\<close>

lemma key_determines_entry:
  assumes "distinct (map fst c)" "x \<in> set c" "y \<in> set c" "fst x = fst y"
  shows "x = y"
  using assms by (metis eq_key_imp_eq_value prod.collapse)

lemma evict_by_key_is_evict_by_entry:
  assumes d: "distinct (map fst c)" and sub: "set old \<subseteq> set c"
  shows "filter (\<lambda>x. fst x \<notin> set (map fst old)) c = filter (\<lambda>x. x \<notin> set old) c"
proof (rule filter_cong [OF refl])
  fix x assume x: "x \<in> set c"
  have "x \<in> set old" if "fst x \<in> fst ` set old"
  proof -
    from that obtain y where y: "y \<in> set old" "fst y = fst x" by auto
    with sub have "y \<in> set c" by auto
    with d x y have "x = y" using key_determines_entry by metis
    with y show ?thesis by simp
  qed
  then show "(fst x \<notin> set (map fst old)) = (x \<notin> set old)" by auto
qed

lemma sorted_take_le_drop:
  assumes "sorted (map f xs)" "x \<in> set (take n xs)" "y \<in> set (drop n xs)"
  shows "f x \<le> f y"
proof -
  have "sorted (map f (take n xs) @ map f (drop n xs))"
    using assms(1) by (metis append_take_drop_id map_append)
  then show ?thesis using assms(2,3) by (auto simp: sorted_append)
qed

lemma cleanup_completed_evicts:
  assumes d: "distinct (map fst c)" and big: "length c > 1000"
  shows "length (cleanup_completed c) = length c - 500"
    and "set (cleanup_completed c) = set (drop 500 (sort_key (\<lambda>x. created_at (snd x)) c))"
    and "set c - set (cleanup_completed c) = set (take 500 (sort_key (\<lambda>x. created_at (snd x)) c))"
proof -
  let ?srt = "sort_key (\<lambda>x. created_at (snd x)) c"
  let ?old = "take 500 ?srt"
  have dc: "distinct c" using d by (rule distinct_map [THEN iffD1, THEN conjunct1])
  have dsrt: "distinct ?srt" using dc by simp
  have sub: "set ?old \<subseteq> set c" using set_take_subset [of 500 ?srt] by simp
  have eq: "cleanup_completed c = filter (\<lambda>x. x \<notin> set ?old) c"
    using big evict_by_key_is_evict_by_entry [OF d sub] by (simp add: cleanup_completed_def)
  have split: "set c = set ?old \<union> set (drop 500 ?srt)"
    by (metis append_take_drop_id set_append set_sort)
  have disj: "set ?old \<inter> set (drop 500 ?srt) = {}"
    using dsrt by (rule set_take_disj_set_drop_if_distinct) simp
  show "set (cleanup_completed c) = set (drop 500 ?srt)"
    using split disj by (auto simp: eq)
  show "set c - set (cleanup_completed c) = set ?old"
    using split disj by (auto simp: eq)
  have "length (filter (\<lambda>x. x \<in> set ?old) c) = card (set ?old)"
  proof -
    have "set c \<inter> set ?old = set ?old" using sub by blast
    then show ?thesis using dc by (simp add: distinct_length_filter Int_commute)
  qed
  also have "\<dots> = length ?old" using dsrt by (simp add: distinct_card)
  also have "\<dots> = 500" using big by simp
  finally have "length (filter (\<lambda>x. x \<in> set ?old) c) = 500" .
  moreover have "length (filter (\<lambda>x. x \<in> set ?old) c)
      + length (filter (\<lambda>x. x \<notin> set ?old) c) = length c"
    using sum_length_filter_compl [of "\<lambda>x. x \<in> set ?old" c] by simp
  ultimately show "length (cleanup_completed c) = length c - 500"
    by (simp add: eq)
qed

lemma cleanup_completed_oldest:
  assumes d: "distinct (map fst c)" and big: "length c > 1000"
    and x: "x \<in> set c - set (cleanup_completed c)" and y: "y \<in> set (cleanup_completed c)"
  shows "created_at (snd x) \<le> created_at (snd y)"
  using sorted_take_le_drop [of "\<lambda>x. created_at (snd x)"
      "sort_key (\<lambda>x. created_at (snd x)) c" x 500 y]
    cleanup_completed_evicts(2,3) [OF d big] x y by simp

lemma fail_task_fields:
  "task_id (fst (fail_task t e el now s)) = task_id t"
  "created_at (fst (fail_task t e el now s)) = created_at t"
  "completed_tasks (snd (fail_task t e el now s)) = completed_tasks s"
  "active_tasks (snd (fail_task t e el now s)) = active_tasks s"
  by (simp_all add: fail_task_def broadcast_event_def Let_def)

lemma record_outcome_fields:
  "task_id (fst (record_outcome t outcome el now s)) = task_id t"
  "created_at (fst (record_outcome t outcome el now s)) = created_at t"
  "completed_tasks (snd (record_outcome t outcome el now s)) = completed_tasks s"
  "active_tasks (snd (record_outcome t outcome el now s)) = active_tasks s"
  by (simp_all add: record_outcome_def fail_task_fields broadcast_event_def Let_def
        split: sum.splits prod.splits option.splits)

lemma finish_task_completed:
  assumes "map_of (active_tasks s) tid = Some t0"
  shows "completed_tasks (finish_task tid outcome el now s) =
           cleanup_completed (AList.update (task_id t0)
              (fst (record_outcome t0 outcome el now s)) (completed_tasks s))"
  using assms
  by (simp add: finish_task_def move_to_completed_def record_outcome_fields split_beta)

text \<open>
  Claim C6: after every task-completion step the Completed set holds at most 1000
  entries. The step stores the finished task (\<open>inserted\<close>); when that makes 1001 entries,
  500 of them are evicted, namely the first 500 in the order of \<open>created_at\<close>, so that
  every evicted entry is at least as old as every entry that remains (\<open>remaining\<close>).
  The keys of the dictionary are distinct and the bound holds before the step, and both
  hold again after it.
\<close>

theorem completed_set_bounded:
  assumes "distinct (map fst (completed_tasks s))"
    and "length (completed_tasks s) \<le> 1000"
    and "map_of (active_tasks s) tid = Some t0"
  shows "\<exists>t. task_id t = task_id t0 \<and> created_at t = created_at t0 \<and>
     (let inserted = AList.update (task_id t0) t (completed_tasks s);
          remaining = completed_tasks (finish_task tid outcome el now s)
      in length remaining \<le> 1000 \<and> distinct (map fst remaining)
         \<and> set remaining \<subseteq> set inserted
         \<and> (length inserted \<le> 1000 \<longrightarrow> remaining = inserted)
         \<and> (length inserted > 1000 \<longrightarrow>
              length inserted = 1001 \<and> length remaining = 501
              \<and> set inserted - set remaining =
                  set (take 500 (sort_key (\<lambda>x. created_at (snd x)) inserted))
              \<and> (\<forall>x\<in>set inserted - set remaining. \<forall>y\<in>set remaining.
                    created_at (snd x) \<le> created_at (snd y))))"
proof -
  define t where "t = fst (record_outcome t0 outcome el now s)"
  have t: "task_id t = task_id t0" "created_at t = created_at t0"
    "completed_tasks (finish_task tid outcome el now s) =
       cleanup_completed (AList.update (task_id t0) t (completed_tasks s))"
    unfolding t_def using finish_task_completed [OF assms(3)]
    by (simp_all add: record_outcome_fields)
  let ?ins = "AList.update (task_id t0) t (completed_tasks s)"
  have d: "distinct (map fst ?ins)" using assms(1) by (rule distinct_update)
  have len: "length ?ins \<le> 1001"
    using length_update_le [of "task_id t0" t "completed_tasks s"] assms(2) by simp
  have small: "length ?ins \<le> 1000 \<Longrightarrow> cleanup_completed ?ins = ?ins"
    by (rule cleanup_completed_small)
  have sub: "set (cleanup_completed ?ins) \<subseteq> set ?ins"
    by (auto simp: cleanup_completed_def Let_def)
  have dist: "distinct (map fst (cleanup_completed ?ins))"
    using d by (simp add: cleanup_completed_def Let_def distinct_map_filter)
  have big: "length ?ins > 1000 \<Longrightarrow>
      length ?ins = 1001 \<and> length (cleanup_completed ?ins) = 501
      \<and> set ?ins - set (cleanup_completed ?ins)
          = set (take 500 (sort_key (\<lambda>x. created_at (snd x)) ?ins))
      \<and> (\<forall>x\<in>set ?ins - set (cleanup_completed ?ins). \<forall>y\<in>set (cleanup_completed ?ins).
             created_at (snd x) \<le> created_at (snd y))"
    using len cleanup_completed_evicts(1,3) [OF d] cleanup_completed_oldest [OF d] by auto
  have bound: "length (cleanup_completed ?ins) \<le> 1000"
    using small big by (cases "length ?ins \<le> 1000") auto
  show ?thesis
    unfolding Let_def t(3)
    using t(1,2) bound dist sub small big by (intro exI [of _ t]) blast
qed

text \<open>
  Witness for C6: the Completed set holds 1000 tasks when a worker finishes one more.
  The store makes 1001 entries and 501 remain.
\<close>

theorem completed_set_bounded_witness:
  "distinct (map fst (completed_tasks full_kernel))
   \<and> length (completed_tasks full_kernel) \<le> 1000
   \<and> map_of (active_tasks full_kernel) ''t1''
       = Some ((plain_task ''t1'' 0 NORMAL)\<lparr>status := RUNNING\<rparr>)
   \<and> length (completed_tasks (finish_task ''t1'' (Inr (PDict [])) 0 5 full_kernel)) = 501"
proof -
  let ?t0 = "(plain_task ''t1'' 0 NORMAL)\<lparr>status := RUNNING\<rparr>"
  have inj: "inj_on numbered_id A" for A
    by (rule inj_onI) (metis numbered_id_def length_replicate nat.inject)
  have keys: "map fst (completed_tasks full_kernel) = map numbered_id [0..<1000]"
    by (simp add: full_kernel_def comp_def)
  have d: "distinct (map fst (completed_tasks full_kernel))"
    unfolding keys by (simp only: distinct_map distinct_upt inj simp_thms)
  have l: "length (completed_tasks full_kernel) = 1000"
    by (simp add: full_kernel_def)
  have a: "map_of (active_tasks full_kernel) ''t1'' = Some ?t0"
    by (simp add: full_kernel_def)
  have fresh: "''t1'' \<notin> set (map fst (completed_tasks full_kernel))"
    unfolding keys by (auto simp: numbered_id_def)
  have tid: "task_id ?t0 = ''t1''"
    by (simp add: plain_task_def)
  have ins: "length (AList.update ''t1'' t (completed_tasks full_kernel)) = 1001" for t
  proof -
    have "length (map fst (AList.update ''t1'' t (completed_tasks full_kernel))) = 1001"
      using fresh l by (simp add: update_keys)
    then show ?thesis by simp
  qed
  from completed_set_bounded [OF d _ a, of "Inr (PDict [])" 0 5] l ins
  have "length (completed_tasks (finish_task ''t1'' (Inr (PDict [])) 0 5 full_kernel)) = 501"
    by (auto simp: Let_def tid)
  with d l a show ?thesis by simp
qed

section \<open>Memory vault and outcome fields\<close>

text \<open>
  Claim C7: on successful completion a result summary is appended to the Memory Vault
  entry of each present context key, the \<^verbatim>\<open>user_id\<close> entry and the \<^verbatim>\<open>project_id\<close>
  entry.

  \<^verbatim>\<open>_update_memory_vault\<close> writes under \<^verbatim>\<open>task.user_id\<close> only, although
  \<^verbatim>\<open>_get_task_context\<close> reads the entry under \<^verbatim>\<open>task.project_id\<close>. A task with the
  project key \<^verbatim>\<open>p1\<close> and no user key completes and the vault has no entry for
  \<^verbatim>\<open>p1\<close>; the same task with the user key \<^verbatim>\<open>u1\<close> as well gets its summary under
  \<^verbatim>\<open>u1\<close> and still none under \<^verbatim>\<open>p1\<close>.
\<close>

theorem project_key_never_recorded:
  "map (\<lambda>x. (fst x, status (snd x), user_id (snd x), project_id (snd x)))
       (completed_tasks (process_task project_task 0 2 kernel_m))
     = [(''t1'', COMPLETED, None, Some ''p1'')]
   \<and> memory_vault (process_task project_task 0 2 kernel_m) ''p1'' = None
   \<and> map_option length
        (memory_vault (process_task (project_task\<lparr>user_id := Some ''u1''\<rparr>) 0 2 kernel_m) ''u1'')
     = Some 1
   \<and> memory_vault (process_task (project_task\<lparr>user_id := Some ''u1''\<rparr>) 0 2 kernel_m) ''p1''
     = None"
  by (simp add: project_task_def plain_task_def plain_module_def kernel_m_def
        register_ai_module_def new_kernel_def processing_defs)

text \<open>
  Claim C8: the result and error fields are mutually exclusive: a COMPLETED task has a
  result and no error, a FAILED task has an error and no result, and no execution path
  leaves both set.

  The result is stored before the vault update, which is inside the same \<^verbatim>\<open>try\<close>. A
  module method that returns a string makes \<^verbatim>\<open>_summarize_result\<close> raise for a task
  with a user key; the handler then sets FAILED and the error, and the result stays.
\<close>

theorem failed_task_keeps_result:
  "map (\<lambda>x. (fst x, status (snd x), result (snd x), error (snd x)))
       (completed_tasks
          (process_task user_text_task 0 2 (register_ai_module ''m'' text_module new_kernel)))
     = [(''t1'', FAILED, PStr ''code'',
         Some ([CHR 0x27] @ ''str'' @ [CHR 0x27] @ '' object has no attribute ''
               @ [CHR 0x27] @ ''get'' @ [CHR 0x27]))]"
  by (simp add: user_text_task_def text_module_def plain_task_def
        register_ai_module_def new_kernel_def processing_defs)

section \<open>Starting the pool\<close>

text \<open>
  Claim C9: start is idempotent; a second call does not create a second set of workers,
  a second event-distribution loop or a second monitor ticker.

  Counterexample: on a fresh kernel one call of \<^verbatim>\<open>start_monitoring\<close> leaves 4 worker
  loops, one broker and one monitor; a second call leaves 8, 2 and 2.
\<close>

theorem start_twice_counterexample:
  "length (worker_tasks (start_monitoring new_kernel)) = 4
   \<and> message_brokers (start_monitoring new_kernel) = 1
   \<and> performance_monitors (start_monitoring new_kernel) = 1
   \<and> length (worker_tasks (start_monitoring (start_monitoring new_kernel))) = 8
   \<and> message_brokers (start_monitoring (start_monitoring new_kernel)) = 2
   \<and> performance_monitors (start_monitoring (start_monitoring new_kernel)) = 2"
  by (simp add: start_monitoring_def new_kernel_def)

text \<open>
  Claim C9 as amended: every call of start creates \<open>max_workers\<close> further worker loops,
  one further message broker and one further performance monitor, whatever was started
  before.
\<close>

theorem start_monitoring_adds_loops:
  "length (worker_tasks (start_monitoring s)) = length (worker_tasks s) + max_workers s
   \<and> message_brokers (start_monitoring s) = message_brokers s + 1
   \<and> performance_monitors (start_monitoring s) = performance_monitors s + 1"
  by (simp add: start_monitoring_def)

section \<open>Direct commands never raise\<close>

text \<open>
  Claim C10: for every command dictionary \<^verbatim>\<open>execute_command\<close> returns a dictionary and
  never raises. \<^verbatim>\<open>get_status\<close> returns the status report; \<^verbatim>\<open>get_task_status\<close> returns
  the task from the Active or the Completed set, or \<^verbatim>\<open>Task not found\<close> under the key
  \<^verbatim>\<open>error\<close>; \<^verbatim>\<open>cancel_task\<close> returns \<^verbatim>\<open>cancelled\<close> or an error; any other type
  returns a dictionary with the key \<^verbatim>\<open>error\<close>; and whenever the body raises, the
  exception's text is returned under the key \<^verbatim>\<open>error\<close> and the state is unchanged.
\<close>

theorem execute_command_returns_mapping:
  "(dict_get command ''type'' = PStr ''get_status'' \<longrightarrow>
      execute_command command s =
        ([(''status'', RStr ''active''),
          (''active_tasks'', RInt (length (active_tasks s))),
          (''queue_size'', RInt (length (task_queue s))),
          (''performance'', RMetrics (performance_metrics s))], s))
   \<and> (dict_get command ''type'' = PStr ''get_task_status''
        \<and> dict_get command ''task_id'' = PStr tid \<longrightarrow>
      execute_command command s =
        (case map_of (active_tasks s) tid of
           Some t \<Rightarrow> ([(''task'', RTask t)], s)
         | None \<Rightarrow> (case map_of (completed_tasks s) tid of
                      Some t \<Rightarrow> ([(''task'', RTask t)], s)
                    | None \<Rightarrow> ([(''error'', RStr ''Task not found'')], s))))
   \<and> (dict_get command ''type'' = PStr ''cancel_task''
        \<and> dict_get command ''task_id'' = PStr tid \<longrightarrow>
      execute_command command s =
        (case map_of (active_tasks s) tid of
           Some t \<Rightarrow> ([(''status'', RStr ''cancelled'')],
                      s\<lparr>active_tasks :=
                          AList.update tid (t\<lparr>status := CANCELLED\<rparr>) (active_tasks s)\<rparr>)
         | None \<Rightarrow> ([(''error'', RStr ''Task not found or not active'')], s)))
   \<and> (dict_get command ''type''
          \<notin> {PStr ''get_status'', PStr ''get_task_status'', PStr ''cancel_task''} \<longrightarrow>
      execute_command command s =
        ([(''error'', RFormat ''Unknown command type: '' (dict_get command ''type''))], s))
   \<and> (\<forall>e. execute_command_try command s = Inl e \<longrightarrow>
      execute_command command s = ([(''error'', RStr (exn_str e))], s))
   \<and> (\<forall>r. execute_command_try command s = Inr r \<longrightarrow> execute_command command s = r)"
  by (simp add: execute_command_def execute_command_try_def dict_find_def split: option.splits)

text \<open>
  Witness for C10: a \<^verbatim>\<open>get_task_status\<close> command whose \<^verbatim>\<open>task_id\<close> is a list. The
  membership test raises a TypeError inside the body, and the command returns its text
  under the key \<^verbatim>\<open>error\<close>.
\<close>

theorem execute_command_returns_mapping_witness:
  "execute_command_try unhashable_status_command one_running
     = Inl (TypeError (''unhashable type: '' @ [CHR 0x27] @ ''list'' @ [CHR 0x27]))
   \<and> execute_command unhashable_status_command one_running
     = ([(''error'', RStr (''unhashable type: '' @ [CHR 0x27] @ ''list'' @ [CHR 0x27]))],
        one_running)"
proof -
  have raised: "execute_command_try unhashable_status_command one_running
      = Inl (TypeError (''unhashable type: '' @ [CHR 0x27] @ ''list'' @ [CHR 0x27]))"
    by (simp add: unhashable_status_command_def execute_command_try_def dict_get_def
          dict_find_def)
  from execute_command_returns_mapping [of unhashable_status_command one_running] raised
  have "execute_command unhashable_status_command one_running
     = ([(''error'', RStr (exn_str
            (TypeError (''unhashable type: '' @ [CHR 0x27] @ ''list'' @ [CHR 0x27]))))],
        one_running)"
    by blast
  with raised show ?thesis by simp
qed

end
